theory Spec2Isabelle
  imports Complex_Main "HOL-Library.Char_ord" "HOL-Library.List_Lexorder"
begin

section \<open>Python values used by the client\<close>

text \<open>
  Exceptions are values. Each constructor is a Python exception class and carries
  \<open>str(e)\<close>. \<open>OtherError\<close> stands for every other subclass of \<open>Exception\<close>
  (the transport and authentication errors of the OpenAI client among them).
\<close>

datatype exn =
    ValueError string
  | RuntimeError string
  | IndexError string
  | TypeError string
  | JSONDecodeError string
  | ValidationError string
  | OtherError string

fun str_exn :: "exn \<Rightarrow> string" where
  "str_exn (ValueError m) = m"
| "str_exn (RuntimeError m) = m"
| "str_exn (IndexError m) = m"
| "str_exn (TypeError m) = m"
| "str_exn (JSONDecodeError m) = m"
| "str_exn (ValidationError m) = m"
| "str_exn (OtherError m) = m"

text \<open>The classes caught by \<open>except (json.JSONDecodeError, ValidationError)\<close>.\<close>

fun is_decode_error :: "exn \<Rightarrow> bool" where
  "is_decode_error (JSONDecodeError m) = True"
| "is_decode_error (ValidationError m) = True"
| "is_decode_error e = False"

subsection \<open>Numbers and JSON values\<close>

text \<open>
  A Python \<open>float\<close> is a finite value, an infinity or NaN. Only comparisons with
  integer literals occur, and those are exact: every comparison with NaN is false.
\<close>

datatype pyfloat = Fin real | PosInf | NegInf | NaN

text \<open>\<open>x < k\<close> and \<open>x > k\<close> for a float \<open>x\<close> and an integer literal \<open>k\<close>.\<close>

fun float_lt :: "pyfloat \<Rightarrow> int \<Rightarrow> bool" where
  "float_lt (Fin x) k = (x < of_int k)"
| "float_lt PosInf k = False"
| "float_lt NegInf k = True"
| "float_lt NaN k = False"

fun float_gt :: "pyfloat \<Rightarrow> int \<Rightarrow> bool" where
  "float_gt (Fin x) k = (of_int k < x)"
| "float_gt PosInf k = True"
| "float_gt NegInf k = False"
| "float_gt NaN k = False"

text \<open>
  The values \<open>json.loads\<close> returns. A \<open>JObj\<close> is a \<open>dict\<close>: its keys are
  distinct, in insertion order.
\<close>

datatype json =
    JNull
  | JBool bool
  | JInt int
  | JFloat pyfloat
  | JStr string
  | JArr "json list"
  | JObj "(string \<times> json) list"

text \<open>\<open>str(n)\<close> for an \<open>int\<close>.\<close>

fun str_nat :: "nat \<Rightarrow> string" where
  "str_nat n =
     (if n < 10 then [''0123456789'' ! n]
      else str_nat (n div 10) @ [''0123456789'' ! (n mod 10)])"

declare str_nat.simps [simp del]

definition str_int :: "int \<Rightarrow> string" where
  "str_int i = (if i < 0 then ''-'' @ str_nat (nat (- i)) else str_nat (nat i))"

text \<open>\<open>range(n)\<close>: empty when \<open>n \<le> 0\<close>.\<close>

definition py_range :: "int \<Rightarrow> int list" where
  "py_range n = map int [0..<nat n]"

subsection \<open>Strings\<close>

text \<open>
  A \<open>str\<close> is a list of code points; the type \<open>char\<close> covers U+0000 to U+00FF.
  On these, \<open>str.isspace\<close> holds for TAB, LF, VT, FF, CR, FS, GS, RS, US, space,
  NEL (0x85) and NBSP (0xA0).
\<close>

definition isspace :: "char \<Rightarrow> bool" where
  "isspace c =
     (let n = (of_char c :: nat)
      in (9 \<le> n \<and> n \<le> 13) \<or> (28 \<le> n \<and> n \<le> 32) \<or> n = 133 \<or> n = 160)"

text \<open>
  \<open>s.lower()\<close>: on U+0000 to U+00FF the upper-case letters are A to Z and
  U+00C0 to U+00DE without U+00D7; each has its lower-case letter 32 places on.
\<close>

definition lower_char :: "char \<Rightarrow> char" where
  "lower_char c =
     (let n = (of_char c :: nat)
      in if (65 \<le> n \<and> n \<le> 90) \<or> (192 \<le> n \<and> n \<le> 222 \<and> n \<noteq> 215)
         then char_of (n + 32) else c)"

definition lower :: "string \<Rightarrow> string" where
  "lower s = map lower_char s"

text \<open>\<open>s.strip()\<close>\<close>

definition strip :: "string \<Rightarrow> string" where
  "strip s = rev (dropWhile isspace (rev (dropWhile isspace s)))"

text \<open>\<open>s.startswith(p)\<close>\<close>

definition startswith :: "string \<Rightarrow> string \<Rightarrow> bool" where
  "startswith s p = (take (length p) s = p)"

text \<open>\<open>s.split(sep)\<close> for a separator of one character: never the empty list.\<close>

fun split_on :: "char \<Rightarrow> string \<Rightarrow> string list" where
  "split_on sep [] = [[]]"
| "split_on sep (c # cs) =
     (if c = sep then [] # split_on sep cs
      else (case split_on sep cs of
              [] \<Rightarrow> [[c]]
            | l # ls \<Rightarrow> (c # l) # ls))"

text \<open>\<open>sep.join(xs)\<close>\<close>

fun join_str :: "string \<Rightarrow> string list \<Rightarrow> string" where
  "join_str sep [] = []"
| "join_str sep [x] = x"
| "join_str sep (x # y # ys) = x @ sep @ join_str sep (y # ys)"

text \<open>\<open>xs[-1]\<close> raises \<open>IndexError\<close> on the empty list.\<close>

definition py_last :: "'a list \<Rightarrow> exn + 'a" where
  "py_last xs = (if xs = [] then Inl (IndexError ''list index out of range'') else Inr (last xs))"

section \<open>Text extraction\<close>

text \<open>
  \<^verbatim>\<open>OpenRouterClient._extract_json\<close>. The test of the closing fence is
  \<^verbatim>\<open>lines and lines[-1].strip() == "```"\<close>: the index is only evaluated on a
  non-empty list.
\<close>

definition closing_fence :: "string list \<Rightarrow> exn + bool" where
  "closing_fence lines =
     (if lines = [] then Inr False
      else (case py_last lines of
              Inl e \<Rightarrow> Inl e
            | Inr l \<Rightarrow> Inr (strip l = ''```'')))"

definition extract_json :: "string \<Rightarrow> exn + string" where
  "extract_json text0 =
     (let text = strip text0 in
      if startswith text ''```'' then
        (let lines = split_on CHR ''\<newline>'' text;
             lines = drop 1 lines
         in case closing_fence lines of
              Inl e \<Rightarrow> Inl e
            | Inr fenced \<Rightarrow>
                (let lines = (if fenced then butlast lines else lines)
                 in Inr (strip (join_str ''\<newline>'' lines))))
      else Inr text)"

text \<open>
  The extraction as the specification words it: trim; on a leading fence drop the first
  line and a closing fence line, and return the joined remainder; otherwise return the
  trimmed text.
\<close>

definition extract_as_specified :: "string \<Rightarrow> string" where
  "extract_as_specified text0 =
     (let text = strip text0 in
      if startswith text ''```'' then
        (let lines = drop 1 (split_on CHR ''\<newline>'' text);
             lines = (if lines \<noteq> [] \<and> strip (last lines) = ''```'' then butlast lines else lines)
         in join_str ''\<newline>'' lines)
      else text)"

section \<open>Model configuration\<close>

text \<open>The dataclass \<^verbatim>\<open>ModelConfig\<close>; \<open>extra_body\<close> is a \<open>dict\<close> of opaque values.\<close>

record ModelConfig =
  model :: "string option"
  temperature :: pyfloat
  max_tokens :: "int option"
  top_p :: pyfloat
  frequency_penalty :: pyfloat
  presence_penalty :: pyfloat
  system_prompt :: "string option"
  extra_body :: "(string \<times> json) list"

text \<open>
  \<^verbatim>\<open>ModelConfig.__post_init__\<close>. The generated \<open>__init__\<close> stores the arguments in
  the fields and then runs this check, so constructing a \<open>ModelConfig\<close> from field values
  \<open>c\<close> is \<open>post_init c\<close>: \<open>Inr c\<close> is the constructed object, \<open>Inl e\<close> the raised error.
\<close>

definition post_init :: "ModelConfig \<Rightarrow> exn + ModelConfig" where
  "post_init c =
     (if float_lt (temperature c) 0 \<or> float_gt (temperature c) 2
        then Inl (ValueError ''Temperature must be between 0 and 2'')
      else if float_lt (top_p c) 0 \<or> float_gt (top_p c) 1
        then Inl (ValueError ''top_p must be between 0 and 1'')
      else if float_lt (frequency_penalty c) (- 2) \<or> float_gt (frequency_penalty c) 2
        then Inl (ValueError ''frequency_penalty must be between -2 and 2'')
      else if float_lt (presence_penalty c) (- 2) \<or> float_gt (presence_penalty c) 2
        then Inl (ValueError ''presence_penalty must be between -2 and 2'')
      else (case max_tokens c of
              None \<Rightarrow> Inr c
            | Some n \<Rightarrow> if n < 1 then Inl (ValueError ''max_tokens must be positive'') else Inr c))"

text \<open>
  The field defaults. The literal \<open>0.7\<close> denotes the double nearest to it, which is
  \<open>3152519739159347 / 2^52\<close>.
\<close>

definition ModelConfig_defaults :: ModelConfig where
  "ModelConfig_defaults =
     \<lparr> model = None,
       temperature = Fin (3152519739159347 / 4503599627370496),
       max_tokens = None,
       top_p = Fin 1,
       frequency_penalty = Fin 0,
       presence_penalty = Fin 0,
       system_prompt = None,
       extra_body = [] \<rparr>"

text \<open>
  \<^verbatim>\<open>ModelConfig.to_api_params\<close> builds a \<open>dict\<close>: five keys always, \<open>max_tokens\<close>
  only when it is set.
\<close>

datatype param = FloatParam pyfloat | IntParam int | DictParam "(string \<times> json) list"

definition to_api_params :: "ModelConfig \<Rightarrow> (string \<times> param) list" where
  "to_api_params c =
     [ (''temperature'', FloatParam (temperature c)),
       (''top_p'', FloatParam (top_p c)),
       (''frequency_penalty'', FloatParam (frequency_penalty c)),
       (''presence_penalty'', FloatParam (presence_penalty c)),
       (''extra_body'', DictParam (extra_body c)) ]
     @ (case max_tokens c of None \<Rightarrow> [] | Some n \<Rightarrow> [(''max_tokens'', IntParam n)])"

section \<open>The client and its collaborators\<close>

text \<open>A chat message \<^verbatim>\<open>{"role": r, "content": c}\<close>; the content may be \<open>None\<close>.\<close>

record message =
  role :: string
  content :: "string option"

text \<open>
  One invocation of \<^verbatim>\<open>self.client.chat.completions.create\<close>: the keyword arguments,
  and what the \<open>try\<close> block gets from it. \<open>Inr t\<close> is the text
  \<^verbatim>\<open>completion.choices[0].message.content\<close>, a \<open>str\<close> as the annotations of the
  client have it; \<open>Inl e\<close> is the exception raised by the call or by reading the text out
  of its result. Exceptions outside \<open>Exception\<close> (a keyboard interrupt) are left out.
\<close>

record request =
  req_model :: "string option"
  req_messages :: "message list"
  req_params :: "(string \<times> param) list"

type_synonym reply = "exn + string"

text \<open>
  What the client does not implement itself: the completion service, with a state of its
  own, the \<open>json\<close> module (\<open>json.loads\<close>, and \<open>json.dumps\<close> with \<open>indent=2\<close>),
  and the wording of the \<open>TypeError\<close> with which pydantic answers a call of its class
  \<open>ValidationError\<close> (the wording differs between releases).
\<close>

record 's collaborators =
  create :: "'s \<Rightarrow> request \<Rightarrow> reply \<times> 's"
  json_loads :: "string \<Rightarrow> exn + json"
  json_dumps :: "json \<Rightarrow> string"
  no_constructor_text :: string

text \<open>
  A pydantic model class: its name, its JSON schema and its validator, which raises
  \<open>ValidationError\<close> on data that does not fit.
\<close>

record 'a BaseModel =
  model_name :: string
  model_json_schema :: json
  model_validate :: "json \<Rightarrow> exn + 'a"

text \<open>
  The state the operations run in. \<open>ModelConfig\<close> objects live in a store and are passed
  by reference, as Python passes them; \<open>fresh\<close> is the next unused reference. \<open>calls\<close>
  logs every invocation of the completion service with its result, oldest first.
\<close>

record 's world =
  configs :: "nat \<Rightarrow> ModelConfig"
  fresh :: nat
  stderr :: "string list"
  remote :: 's
  calls :: "(request \<times> reply) list"

record OpenRouterClient =
  base_url :: string
  api_key :: string
  default_config :: nat

definition MODELS :: "string list" where
  "MODELS =
     [ ''deepseek/deepseek-chat-v3.1:free'',
       ''mistralai/mistral-small-3.2-24b-instruct:free'',
       ''moonshotai/kimi-dev-72b:free'',
       ''meta-llama/llama-3.3-8b-instruct:free'',
       ''nvidia/nemotron-nano-9b-v2:free'',
       ''openai/gpt-oss-20b:free'',
       ''qwen/qwen3-14b:free'',
       ''qwen/qwen3-30b-a3b:free'',
       ''qwen/qwen3-235b-a22b:free'',
       ''tencent/hunyuan-a13b-instruct:free'',
       ''x-ai/grok-4-fast:free'',
       ''z-ai/glm-4.5-air:free'' ]"

definition MODEL_ALIASES :: "(string \<times> string) list" where
  "MODEL_ALIASES =
     [ (''deepseek'', ''deepseek/deepseek-chat-v3.1:free''),
       (''mistral'', ''mistralai/mistral-small-3.2-24b-instruct:free''),
       (''kimi'', ''moonshotai/kimi-dev-72b:free''),
       (''llama'', ''meta-llama/llama-3.3-8b-instruct:free''),
       (''nemotron'', ''nvidia/nemotron-nano-9b-v2:free''),
       (''gpt'', ''openai/gpt-oss-20b:free''),
       (''qwen14'', ''qwen/qwen3-14b:free''),
       (''qwen30'', ''qwen/qwen3-30b-a3b:free''),
       (''qwen235'', ''qwen/qwen3-235b-a22b:free''),
       (''hunyuan'', ''tencent/hunyuan-a13b-instruct:free''),
       (''grok'', ''x-ai/grok-4-fast:free''),
       (''glm'', ''z-ai/glm-4.5-air:free'') ]"

text \<open>\<^verbatim>\<open>OpenRouterClient.resolve_model\<close>\<close>

definition resolve_model :: "string \<Rightarrow> string" where
  "resolve_model model_input =
     (case map_of MODEL_ALIASES (lower model_input) of
        Some full \<Rightarrow> full
      | None \<Rightarrow> model_input)"

text \<open>\<^verbatim>\<open>OpenRouterClient.get_models\<close>\<close>

definition get_models :: "string list" where
  "get_models = MODELS"

text \<open>\<open>random.choice(xs)\<close> on a non-empty list, the random index supplied from outside.\<close>

definition random_choice :: "nat \<Rightarrow> 'a list \<Rightarrow> 'a" where
  "random_choice pick xs = xs ! (pick mod length xs)"

text \<open>The assignment \<^verbatim>\<open>self.default_config.model = m\<close>: a write to the referenced object.\<close>

definition set_model :: "nat \<Rightarrow> string \<Rightarrow> 's world \<Rightarrow> 's world" where
  "set_model r m w = w\<lparr>configs := (configs w)(r := (configs w r)\<lparr>model := Some m\<rparr>)\<rparr>"

text \<open>
  \<^verbatim>\<open>OpenRouterClient.__init__\<close>. \<open>env_key\<close> is the value of the environment variable
  \<open>OPENROUTER_API_KEY\<close>, \<open>pick\<close> the random index, \<open>config\<close> the reference the caller
  passes (or \<open>None\<close>). \<^verbatim>\<open>config or ModelConfig()\<close> keeps the caller's object when one
  is given, so the assignments to \<open>model\<close> below write to that very object.
\<close>

definition OpenRouterClient_init ::
  "string option \<Rightarrow> nat \<Rightarrow> nat option \<Rightarrow> 's world \<Rightarrow> (exn + OpenRouterClient) \<times> 's world" where
  "OpenRouterClient_init env_key pick config w =
     (case env_key of
        None \<Rightarrow> (Inl (ValueError ''API key not found. Set OPENROUTER_API_KEY environment variable or pass it to the constructor.''), w)
      | Some key \<Rightarrow>
          if key = [] then (Inl (ValueError ''API key not found. Set OPENROUTER_API_KEY environment variable or pass it to the constructor.''), w)
          else
            (case (case config of
                     Some r \<Rightarrow> Inr (r, w)
                   | None \<Rightarrow>
                       (case post_init ModelConfig_defaults of
                          Inl e \<Rightarrow> Inl e
                        | Inr c \<Rightarrow> Inr (fresh w, w\<lparr>configs := (configs w)(fresh w := c), fresh := Suc (fresh w)\<rparr>))) of
               Inl e \<Rightarrow> (Inl e, w)
             | Inr (r, w1) \<Rightarrow>
                 (let self = \<lparr> base_url = ''https://openrouter.ai/api/v1'', api_key = key, default_config = r \<rparr>
                  in case model (configs w1 r) of
                       None \<Rightarrow> (Inr self, set_model r (random_choice pick get_models) w1)
                     | Some m \<Rightarrow>
                         (let w2 = set_model r (resolve_model m) w1
                          in if resolve_model m \<in> set MODELS then (Inr self, w2)
                             else (Inr self, w2\<lparr>stderr := stderr w2 @
                                     [''Warning: '' @ [CHR 0x27] @ resolve_model m @ [CHR 0x27] @
                                      '' not in predefined list. Attempting anyway...\<newline>'']\<rparr>)))))"

text \<open>
  The completion call both generators make: build the keyword arguments from the
  configuration, invoke the service, log the invocation.
\<close>

definition request_for :: "ModelConfig \<Rightarrow> message list \<Rightarrow> request" where
  "request_for config messages =
     \<lparr> req_model = model config, req_messages = messages, req_params = to_api_params config \<rparr>"

definition invoke :: "'s collaborators \<Rightarrow> ModelConfig \<Rightarrow> message list \<Rightarrow> 's world \<Rightarrow> reply \<times> 's world" where
  "invoke E config messages w =
     (let req = request_for config messages;
          (reply, r') = create E (remote w) req
      in (reply, w\<lparr>remote := r', calls := calls w @ [(req, reply)]\<rparr>))"

text \<open>\<^verbatim>\<open>OpenRouterClient.generate_text\<close>: every exception becomes a \<open>RuntimeError\<close>.\<close>

definition generate_text ::
  "'s collaborators \<Rightarrow> OpenRouterClient \<Rightarrow> string \<Rightarrow> 's world \<Rightarrow> (exn + string) \<times> 's world" where
  "generate_text E self user_prompt w =
     (let config = configs w (default_config self);
          messages = (case system_prompt config of
                        None \<Rightarrow> []
                      | Some s \<Rightarrow> if s = [] then [] else [\<lparr> role = ''system'', content = Some s \<rparr>])
                     @ [\<lparr> role = ''user'', content = Some user_prompt \<rparr>];
          (reply, w') = invoke E config messages w
      in case reply of
           Inl e \<Rightarrow> (Inl (RuntimeError (''API request failed: '' @ str_exn e)), w')
         | Inr text \<Rightarrow> (Inr text, w'))"

section \<open>Structured generation\<close>

text \<open>
  What the \<open>try\<close> block does with the service's reply: extract, parse, validate. The first
  exception ends it.
\<close>

definition decode :: "'s collaborators \<Rightarrow> 'a BaseModel \<Rightarrow> reply \<Rightarrow> exn + 'a" where
  "decode E response_model reply =
     (case reply of
        Inl e \<Rightarrow> Inl e
      | Inr response_text \<Rightarrow>
          (case extract_json response_text of
             Inl e \<Rightarrow> Inl e
           | Inr json_text \<Rightarrow>
               (case json_loads E json_text of
                  Inl e \<Rightarrow> Inl e
                | Inr parsed_data \<Rightarrow> model_validate response_model parsed_data)))"

text \<open>The two messages appended before a retry.\<close>

definition feedback :: "string option \<Rightarrow> exn \<Rightarrow> message list" where
  "feedback response_text e =
     [ \<lparr> role = ''assistant'', content = response_text \<rparr>,
       \<lparr> role = ''user'',
         content = Some (''Your previous response was invalid. Error: '' @ str_exn e @ ''\<newline>'' @
                         ''Please provide a valid JSON response matching the schema exactly.'') \<rparr> ]"

text \<open>
  The message formatted for the error after the loop; \<open>str(None)\<close> is \<open>None\<close>.
\<close>

definition exhausted_message :: "int \<Rightarrow> exn option \<Rightarrow> string" where
  "exhausted_message max_retries last_error =
     ''Failed to generate valid structured output after '' @ str_int max_retries @ '' attempts. '' @
     ''Last error: '' @ (case last_error of None \<Rightarrow> ''None'' | Some e \<Rightarrow> str_exn e)"

text \<open>
  The call \<^verbatim>\<open>ValidationError(message)\<close>. The client uses the API of pydantic 2
  (\<open>model_json_schema\<close>, \<open>model_validate\<close>), whose \<open>ValidationError\<close> has no
  constructor that Python code can call: the call raises a \<open>TypeError\<close>, whatever
  the message, and no \<open>ValidationError\<close> comes into being.
\<close>

definition ValidationError_new :: "'s collaborators \<Rightarrow> string \<Rightarrow> exn + exn" where
  "ValidationError_new E message = Inl (TypeError (no_constructor_text E))"

text \<open>
  One pass through the loop body. \<open>Return\<close> and \<open>Raise\<close> leave the function;
  \<open>Retry\<close> carries the new values of \<open>messages\<close>, \<open>last_error\<close> and
  \<open>response_text\<close> into the next iteration. \<open>response_text\<close> is only assigned when the
  service returned.
\<close>

datatype 'a outcome =
    Return 'a
  | Raise exn
  | Retry "message list" exn "string option"

definition attempt_body ::
  "'s collaborators \<Rightarrow> OpenRouterClient \<Rightarrow> 'a BaseModel \<Rightarrow> int \<Rightarrow> int \<Rightarrow>
   message list \<Rightarrow> string option \<Rightarrow> 's world \<Rightarrow> 'a outcome \<times> 's world" where
  "attempt_body E self response_model max_retries attempt messages response_text w =
     (let config = configs w (default_config self);
          (reply, w') = invoke E config messages w;
          response_text = (case reply of Inl e \<Rightarrow> response_text | Inr t \<Rightarrow> Some t)
      in case decode E response_model reply of
           Inr validated_response \<Rightarrow> (Return validated_response, w')
         | Inl e \<Rightarrow>
             if is_decode_error e then
               (if attempt < max_retries - 1
                then (Retry (messages @ feedback response_text e) e response_text, w')
                else (Retry messages e response_text, w'))
             else (Raise (RuntimeError (''API request failed: '' @ str_exn e)), w'))"

text \<open>
  The loop \<^verbatim>\<open>for attempt in range(max_retries)\<close> over the remaining attempt numbers,
  and the statement \<^verbatim>\<open>raise ValidationError(...)\<close> that follows it: the message is
  formatted, the class is called, and what leaves the function is the exception of that
  call, or else the object it returned.
\<close>

fun retry_loop ::
  "'s collaborators \<Rightarrow> OpenRouterClient \<Rightarrow> 'a BaseModel \<Rightarrow> int \<Rightarrow> int list \<Rightarrow>
   message list \<Rightarrow> exn option \<Rightarrow> string option \<Rightarrow> 's world \<Rightarrow> (exn + 'a) \<times> 's world" where
  "retry_loop E self response_model max_retries [] messages last_error response_text w =
     (case ValidationError_new E (exhausted_message max_retries last_error) of
        Inl e \<Rightarrow> (Inl e, w)
      | Inr e \<Rightarrow> (Inl e, w))"
| "retry_loop E self response_model max_retries (attempt # rest) messages last_error response_text w =
     (case attempt_body E self response_model max_retries attempt messages response_text w of
        (Return v, w') \<Rightarrow> (Inr v, w')
      | (Raise e, w') \<Rightarrow> (Inl e, w')
      | (Retry messages' e response_text', w') \<Rightarrow>
          retry_loop E self response_model max_retries rest messages' (Some e) response_text' w')"

text \<open>\<^verbatim>\<open>OpenRouterClient.generate_structured\<close>\<close>

definition initial_messages :: "'s collaborators \<Rightarrow> ModelConfig \<Rightarrow> 'a BaseModel \<Rightarrow> string \<Rightarrow> message list" where
  "initial_messages E config response_model user_prompt =
     (let schema = model_json_schema response_model;
          schema_instruction =
            ''You must respond with valid JSON that matches this exact schema:\<newline>'' @
            json_dumps E schema @ ''\<newline>\<newline>'' @
            ''Respond ONLY with the JSON object, no additional text or markdown formatting.'';
          base_system_prompt = (case system_prompt config of None \<Rightarrow> [] | Some s \<Rightarrow> s);
          enhanced_system_prompt = strip (base_system_prompt @ ''\<newline>\<newline>'' @ schema_instruction)
      in [ \<lparr> role = ''system'', content = Some enhanced_system_prompt \<rparr>,
           \<lparr> role = ''user'', content = Some user_prompt \<rparr> ])"

definition generate_structured ::
  "'s collaborators \<Rightarrow> OpenRouterClient \<Rightarrow> string \<Rightarrow> 'a BaseModel \<Rightarrow> int \<Rightarrow> 's world \<Rightarrow>
   (exn + 'a) \<times> 's world" where
  "generate_structured E self user_prompt response_model max_retries w =
     (let config = configs w (default_config self);
          messages = initial_messages E config response_model user_prompt
      in retry_loop E self response_model max_retries (py_range max_retries) messages None None w)"

text \<open>
  A piece of the log read against the service: from the state \<open>s\<close> each logged request,
  in order, got the logged reply from \<open>create\<close>, and the service ended in \<open>s'\<close>.
\<close>

fun served :: "'s collaborators \<Rightarrow> 's \<Rightarrow> (request \<times> reply) list \<Rightarrow> 's \<Rightarrow> bool" where
  "served E s [] s' = (s' = s)"
| "served E s (c # cs) s' =
     (fst (create E s (fst c)) = snd c \<and> served E (snd (create E s (fst c))) cs s')"

text \<open>
  The class \<^verbatim>\<open>ListWrapper\<close> that \<open>generate_structured_list\<close> declares, with the one
  field \<^verbatim>\<open>items: List[item_model]\<close>. Its schema and validator are what pydantic derives
  for such a class from an item class that is a plain model. The schema keeps the item
  schema under \<open>$defs\<close>, by the name of the item class and next to the definitions the
  item schema brought along, sorted by name, and refers to it from the one property
  \<open>items\<close>. The validator wants an object whose \<open>items\<close> entry is an array and
  validates every element as an item; the texts of its errors stand for pydantic's.
\<close>

record 'a ListWrapper =
  items :: "'a list"

fun validate_items :: "(json \<Rightarrow> exn + 'a) \<Rightarrow> json list \<Rightarrow> exn + 'a list" where
  "validate_items f [] = Inr []"
| "validate_items f (x # xs) =
     (case f x of
        Inl e \<Rightarrow> Inl e
      | Inr v \<Rightarrow> (case validate_items f xs of Inl e \<Rightarrow> Inl e | Inr vs \<Rightarrow> Inr (v # vs)))"

definition ListWrapper_validate :: "'a BaseModel \<Rightarrow> json \<Rightarrow> exn + 'a ListWrapper" where
  "ListWrapper_validate item_model data =
     (case data of
        JObj entries \<Rightarrow>
          (case map_of entries ''items'' of
             None \<Rightarrow> Inl (ValidationError ''1 validation error for ListWrapper: items: Field required'')
           | Some (JArr xs) \<Rightarrow>
               (case validate_items (model_validate item_model) xs of
                  Inl e \<Rightarrow> Inl e
                | Inr vs \<Rightarrow> Inr \<lparr> items = vs \<rparr>)
           | Some _ \<Rightarrow> Inl (ValidationError ''1 validation error for ListWrapper: items: Input should be a valid list''))
      | _ \<Rightarrow> Inl (ValidationError ''1 validation error for ListWrapper: Input should be a valid dictionary''))"

definition item_definitions :: "'a BaseModel \<Rightarrow> (string \<times> json) list" where
  "item_definitions item_model =
     (case model_json_schema item_model of
        JObj entries \<Rightarrow>
          sort_key fst
            ((case map_of entries ''$defs'' of Some (JObj defs) \<Rightarrow> defs | _ \<Rightarrow> [])
             @ [(model_name item_model, JObj (filter (\<lambda>entry. fst entry \<noteq> ''$defs'') entries))])
      | schema \<Rightarrow> [(model_name item_model, schema)])"

definition ListWrapper_model :: "'a BaseModel \<Rightarrow> 'a ListWrapper BaseModel" where
  "ListWrapper_model item_model =
     \<lparr> model_name = ''ListWrapper'',
       model_json_schema =
         JObj [ (''$defs'', JObj (item_definitions item_model)),
                (''properties'',
                   JObj [(''items'',
                            JObj [ (''items'', JObj [(''$ref'', JStr (''#/$defs/'' @ model_name item_model))]),
                                   (''title'', JStr ''Items''),
                                   (''type'', JStr ''array'') ])]),
                (''required'', JArr [JStr ''items'']),
                (''title'', JStr ''ListWrapper''),
                (''type'', JStr ''object'') ],
       model_validate = ListWrapper_validate item_model \<rparr>"

text \<open>\<^verbatim>\<open>OpenRouterClient.generate_structured_list\<close>\<close>

definition generate_structured_list ::
  "'s collaborators \<Rightarrow> OpenRouterClient \<Rightarrow> string \<Rightarrow> 'a BaseModel \<Rightarrow> int \<Rightarrow> 's world \<Rightarrow>
   (exn + 'a list) \<times> 's world" where
  "generate_structured_list E self user_prompt item_model max_retries w =
     (case generate_structured E self user_prompt (ListWrapper_model item_model) max_retries w of
        (Inl e, w') \<Rightarrow> (Inl e, w')
      | (Inr result, w') \<Rightarrow> (Inr (items result), w'))"

section \<open>Example data\<close>

text \<open>
  The class \<^verbatim>\<open>Task\<close> of the usage example, with two required string fields; unknown
  fields are ignored.
\<close>

record Task =
  name :: string
  priority :: string

definition Task_validate :: "json \<Rightarrow> exn + Task" where
  "Task_validate data =
     (case data of
        JObj entries \<Rightarrow>
          (case (map_of entries ''name'', map_of entries ''priority'') of
             (Some (JStr n), Some (JStr p)) \<Rightarrow> Inr \<lparr> name = n, priority = p \<rparr>
           | _ \<Rightarrow> Inl (ValidationError ''validation error for Task''))
      | _ \<Rightarrow> Inl (ValidationError ''validation error for Task''))"

definition Task_model :: "Task BaseModel" where
  "Task_model =
     \<lparr> model_name = ''Task'',
       model_json_schema =
         JObj [ (''properties'',
                   JObj [ (''name'', JObj [(''title'', JStr ''Name''), (''type'', JStr ''string'')]),
                          (''priority'', JObj [(''title'', JStr ''Priority''), (''type'', JStr ''string'')]) ]),
                (''required'', JArr [JStr ''name'', JStr ''priority'']),
                (''title'', JStr ''Task''),
                (''type'', JStr ''object'') ],
       model_validate = Task_validate \<rparr>"

text \<open>
  A completion service that answers from a script: its state counts the calls, and past
  the end of the script it answers with text that is not JSON.
\<close>

definition scripted :: "reply list \<Rightarrow> nat \<Rightarrow> request \<Rightarrow> reply \<times> nat" where
  "scripted script n req = ((if n < length script then script ! n else Inr ''not json''), Suc n)"

text \<open>
  \<open>json.loads\<close> on the texts the examples use: two JSON documents, and texts that start
  with no JSON value, for which the parser reports position 0.
\<close>

definition example_loads :: "string \<Rightarrow> exn + json" where
  \<open>example_loads s =
     (if s = ''{"items":[{"name":"A","priority":"high"}]}''
        then Inr (JObj [(''items'', JArr [JObj [(''name'', JStr ''A''), (''priority'', JStr ''high'')]])])
      else if s = ''{"name":"A","priority":"high"}''
        then Inr (JObj [(''name'', JStr ''A''), (''priority'', JStr ''high'')])
      else Inl (JSONDecodeError ''Expecting value: line 1 column 1 (char 0)''))\<close>

definition example_collaborators :: "reply list \<Rightarrow> nat collaborators" where
  "example_collaborators script =
     \<lparr> create = scripted script, json_loads = example_loads, json_dumps = (\<lambda>schema. ''{}''),
       no_constructor_text = ''No constructor defined'' \<rparr>"

text \<open>A world with one configuration object, at reference 0, and a client that uses it.\<close>

definition example_world :: "ModelConfig \<Rightarrow> nat world" where
  "example_world c = \<lparr> configs = (\<lambda>r. c), fresh = 1, stderr = [], remote = 0, calls = [] \<rparr>"

definition example_config :: ModelConfig where
  "example_config = ModelConfig_defaults\<lparr>model := Some ''deepseek/deepseek-chat-v3.1:free''\<rparr>"

definition example_client :: OpenRouterClient where
  "example_client = \<lparr> base_url = ''https://openrouter.ai/api/v1'', api_key = ''key'', default_config = 0 \<rparr>"

text \<open>
  Runs of \<open>generate_structured\<close> on the example data: with a budget of one and a single
  reply \<open>t\<close>, and with a budget of three and a service whose first call raises a
  \<open>JSONDecodeError\<close> of its own before it replies with a valid document.
\<close>

definition run_reply :: "string \<Rightarrow> (exn + Task) \<times> nat world" where
  "run_reply t =
     generate_structured (example_collaborators [Inr t]) example_client ''hi'' Task_model 1
       (example_world example_config)"

definition run_service_raises :: "(exn + Task) \<times> nat world" where
  \<open>run_service_raises =
     generate_structured
       (example_collaborators
          [Inl (JSONDecodeError ''Expecting value: line 1 column 1 (char 0)''),
           Inr ''{"name":"A","priority":"high"}''])
       example_client ''hi'' Task_model 3 (example_world example_config)\<close>

section \<open>Properties of the extraction\<close>

lemma strip_ends: "strip s = [] \<or> \<not> isspace (hd (strip s))"
proof (cases "dropWhile isspace s")
  case Nil
  show ?thesis unfolding strip_def Nil by simp
next
  case (Cons x xs)
  then have nx: "\<not> isspace x"
    using hd_dropWhile [of isspace s] by simp
  have "strip s = x # rev (dropWhile isspace (rev xs))"
    using Cons nx by (simp add: strip_def dropWhile_append3)
  then show ?thesis using nx by simp
qed

lemma strip_strip: "strip (strip s) = strip s"
proof -
  have a: "dropWhile isspace (strip s) = strip s"
    using strip_ends [of s] by (cases "strip s") auto
  have "rev (strip s) = dropWhile isspace (rev (dropWhile isspace s))"
    by (simp add: strip_def)
  then have b: "dropWhile isspace (rev (strip s)) = rev (strip s)"
    by simp
  have "strip (strip s) = rev (dropWhile isspace (rev (dropWhile isspace (strip s))))"
    by (simp add: strip_def)
  also have "\<dots> = rev (dropWhile isspace (rev (strip s)))" by (simp only: a)
  also have "\<dots> = rev (rev (strip s))" by (simp only: b)
  finally show ?thesis by simp
qed

text \<open>The guard before \<open>lines[-1]\<close> keeps the index in range: no \<open>IndexError\<close>.\<close>

lemma closing_fence_total:
  "closing_fence lines = Inr (lines \<noteq> [] \<and> strip (last lines) = ''```'')"
  by (simp add: closing_fence_def py_last_def)

section \<open>Properties of the retry loop\<close>

lemma py_range_nonpos: "n \<le> 0 \<Longrightarrow> py_range n = []"
  by (simp add: py_range_def)

lemma length_py_range: "length (py_range n) = nat n"
  by (simp add: py_range_def)

lemma py_range_one: "1 \<le> n \<Longrightarrow> py_range n = 0 # map int [1..<nat n]"
proof -
  assume "1 \<le> n"
  then have "[0..<nat n] = 0 # [1..<nat n]"
    by (simp add: upt_rec [of 0])
  then show ?thesis by (simp add: py_range_def)
qed

lemma py_range_two: "2 \<le> n \<Longrightarrow> py_range n = 0 # 1 # map int [2..<nat n]"
proof -
  assume "2 \<le> n"
  then have "[0..<nat n] = 0 # 1 # [2..<nat n]"
    by (simp add: upt_rec [of 0] upt_rec [of "Suc 0"] numeral_2_eq_2)
  then show ?thesis by (simp add: py_range_def)
qed

lemma invoke_eq:
  "invoke E c msgs w =
     (fst (create E (remote w) (request_for c msgs)),
      w\<lparr>remote := snd (create E (remote w) (request_for c msgs)),
        calls := calls w @ [(request_for c msgs, fst (create E (remote w) (request_for c msgs)))]\<rparr>)"
  by (simp add: invoke_def Let_def split: prod.splits)

lemma invoke_frame:
  "invoke E c msgs w = (reply, w') \<Longrightarrow>
     configs w' = configs w \<and> fresh w' = fresh w \<and> stderr w' = stderr w \<and>
     calls w' = calls w @ [(request_for c msgs, reply)] \<and>
     create E (remote w) (request_for c msgs) = (reply, remote w')"
  by (auto simp: invoke_eq)

lemma decode_raise: "decode E rm (Inl e) = Inl e"
  by (simp add: decode_def)

text \<open>What one pass through the loop body does, by the way it ends.\<close>

lemma attempt_body_world:
  "attempt_body E self rm n a msgs rt w = (out, w') \<Longrightarrow>
     \<exists>reply. invoke E (configs w (default_config self)) msgs w = (reply, w')"
  by (auto simp: attempt_body_def Let_def split: prod.splits sum.splits if_splits)

lemma attempt_body_Return:
  "attempt_body E self rm n a msgs rt w = (Return v, w') \<Longrightarrow>
     \<exists>reply. invoke E (configs w (default_config self)) msgs w = (reply, w') \<and>
        decode E rm reply = Inr v"
  by (auto simp: attempt_body_def Let_def split: prod.splits sum.splits if_splits)

lemma attempt_body_Raise:
  "attempt_body E self rm n a msgs rt w = (Raise x, w') \<Longrightarrow>
     \<exists>reply e. invoke E (configs w (default_config self)) msgs w = (reply, w') \<and>
        decode E rm reply = Inl e \<and> \<not> is_decode_error e \<and>
        x = RuntimeError (''API request failed: '' @ str_exn e)"
  by (auto simp: attempt_body_def Let_def split: prod.splits sum.splits if_splits)

lemma attempt_body_Retry:
  "attempt_body E self rm n a msgs rt w = (Retry msgs' e rt', w') \<Longrightarrow>
     \<exists>reply. invoke E (configs w (default_config self)) msgs w = (reply, w') \<and>
        decode E rm reply = Inl e \<and> is_decode_error e \<and>
        rt' = (case reply of Inl x \<Rightarrow> rt | Inr t \<Rightarrow> Some t) \<and>
        msgs' = (if a < n - 1 then msgs @ feedback rt' e else msgs)"
  by (auto simp: attempt_body_def Let_def split: prod.splits sum.splits if_splits)

lemma attempt_body_invalid:
  assumes "create E (remote w) (request_for (configs w (default_config self)) msgs) = (Inr t, r')"
    and "decode E rm (Inr t) = Inl e" and "is_decode_error e"
  shows "attempt_body E self rm n a msgs rt w =
           (Retry (if a < n - 1 then msgs @ feedback (Some t) e else msgs) e (Some t),
            w\<lparr>remote := r',
              calls := calls w @ [(request_for (configs w (default_config self)) msgs, Inr t)]\<rparr>)"
  using assms by (simp add: attempt_body_def invoke_eq Let_def)

lemma attempt_body_valid:
  assumes "create E (remote w) (request_for (configs w (default_config self)) msgs) = (Inr t, r')"
    and "decode E rm (Inr t) = Inr v"
  shows "attempt_body E self rm n a msgs rt w =
           (Return v,
            w\<lparr>remote := r',
              calls := calls w @ [(request_for (configs w (default_config self)) msgs, Inr t)]\<rparr>)"
  using assms by (simp add: attempt_body_def invoke_eq Let_def)

text \<open>The loop writes to nothing but the service's state and the log.\<close>

lemma retry_loop_frame:
  "retry_loop E self rm n as msgs le rt w = (res, w') \<Longrightarrow>
     configs w' = configs w \<and> fresh w' = fresh w \<and> stderr w' = stderr w"
proof (induction as arbitrary: msgs le rt w)
  case Nil
  then show ?case by (simp add: ValidationError_new_def)
next
  case (Cons a as)
  obtain out w1 where ab: "attempt_body E self rm n a msgs rt w = (out, w1)"
    by (cases "attempt_body E self rm n a msgs rt w")
  from attempt_body_world [OF ab] invoke_frame
  have fr: "configs w1 = configs w \<and> fresh w1 = fresh w \<and> stderr w1 = stderr w"
    by blast
  show ?case
  proof (cases out)
    case (Return v)
    with Cons.prems ab fr show ?thesis by simp
  next
    case (Raise x)
    with Cons.prems ab fr show ?thesis by simp
  next
    case (Retry msgs' e rt')
    with Cons.prems ab have "retry_loop E self rm n as msgs' (Some e) rt' w1 = (res, w')"
      by simp
    from Cons.IH [OF this] fr show ?thesis by simp
  qed
qed

text \<open>
  The log only grows, by at most one invocation for each attempt number, and what it gains
  is what the service was asked and answered, in order.
\<close>

lemma retry_loop_calls:
  "retry_loop E self rm n as msgs le rt w = (res, w') \<Longrightarrow>
     \<exists>new. calls w' = calls w @ new \<and> length new \<le> length as \<and>
       served E (remote w) new (remote w')"
proof (induction as arbitrary: msgs le rt w)
  case Nil
  then show ?case by (simp add: ValidationError_new_def)
next
  case (Cons a as)
  obtain out w1 where ab: "attempt_body E self rm n a msgs rt w = (out, w1)"
    by (cases "attempt_body E self rm n a msgs rt w")
  from attempt_body_world [OF ab] obtain reply where
    iv: "invoke E (configs w (default_config self)) msgs w = (reply, w1)" by blast
  let ?rq = "request_for (configs w (default_config self)) msgs"
  have c: "calls w1 = calls w @ [(?rq, reply)]"
    and cr: "create E (remote w) ?rq = (reply, remote w1)"
    using invoke_frame [OF iv] by simp_all
  have one: "served E (remote w) [(?rq, reply)] (remote w1)"
    using cr by simp
  show ?case
  proof (cases out)
    case (Return v)
    with Cons.prems ab have "w' = w1" by simp
    with c one have "calls w' = calls w @ [(?rq, reply)] \<and>
        length [(?rq, reply)] \<le> length (a # as) \<and>
        served E (remote w) [(?rq, reply)] (remote w')" by simp
    then show ?thesis by blast
  next
    case (Raise x)
    with Cons.prems ab have "w' = w1" by simp
    with c one have "calls w' = calls w @ [(?rq, reply)] \<and>
        length [(?rq, reply)] \<le> length (a # as) \<and>
        served E (remote w) [(?rq, reply)] (remote w')" by simp
    then show ?thesis by blast
  next
    case (Retry msgs' e rt')
    with Cons.prems ab have "retry_loop E self rm n as msgs' (Some e) rt' w1 = (res, w')"
      by simp
    from Cons.IH [OF this] obtain new where n: "calls w' = calls w1 @ new"
      "length new \<le> length as" "served E (remote w1) new (remote w')"
      by blast
    with c cr have "calls w' = calls w @ ((?rq, reply) # new) \<and>
        length ((?rq, reply) # new) \<le> length (a # as) \<and>
        served E (remote w) ((?rq, reply) # new) (remote w')" by simp
    then show ?thesis by blast
  qed
qed

lemma generate_structured_loop:
  "generate_structured E self p rm n w =
     retry_loop E self rm n (py_range n)
       (initial_messages E (configs w (default_config self)) rm p) None None w"
  by (simp add: generate_structured_def Let_def)

text \<open>
  A service whose every reply fails to decode uses up every attempt number; then the call
  of \<open>ValidationError\<close> fails.
\<close>

lemma retry_loop_always_invalid:
  assumes inv: "\<forall>r req. \<exists>t r'. create E r req = (Inr t, r') \<and>
                  (\<exists>e. decode E rm (Inr t) = Inl e \<and> is_decode_error e)"
  shows "\<exists>new w'.
           retry_loop E self rm n as msgs le rt w = (Inl (TypeError (no_constructor_text E)), w') \<and>
           calls w' = calls w @ new \<and> length new = length as \<and>
           served E (remote w) new (remote w')"
proof (induction as arbitrary: msgs le rt w)
  case Nil
  then show ?case by (simp add: ValidationError_new_def)
next
  case (Cons a as)
  let ?req = "request_for (configs w (default_config self)) msgs"
  from inv obtain t r' e where cr: "create E (remote w) ?req = (Inr t, r')"
    and de: "decode E rm (Inr t) = Inl e" and ie: "is_decode_error e"
    by blast
  let ?w1 = "w\<lparr>remote := r', calls := calls w @ [(?req, Inr t)]\<rparr>"
  let ?msgs = "if a < n - 1 then msgs @ feedback (Some t) e else msgs"
  have step: "retry_loop E self rm n (a # as) msgs le rt w =
                retry_loop E self rm n as ?msgs (Some e) (Some t) ?w1"
    by (simp add: attempt_body_invalid [OF cr de ie])
  from Cons.IH [of ?msgs "Some e" "Some t" ?w1]
  obtain new w' where
    rl: "retry_loop E self rm n as ?msgs (Some e) (Some t) ?w1 =
           (Inl (TypeError (no_constructor_text E)), w')"
    and cl: "calls w' = calls ?w1 @ new" and ln: "length new = length as"
    and sv: "served E (remote ?w1) new (remote w')"
    by blast
  have "calls w' = calls w @ ((?req, Inr t) # new)"
    using cl by simp
  moreover have "length ((?req, Inr t) # new) = length (a # as)"
    using ln by simp
  moreover have "served E (remote w) ((?req, Inr t) # new) (remote w')"
    using sv cr by simp
  ultimately show ?case
    using step rl by metis
qed

text \<open>
  An invocation that raises anything but a decode error is the last one, and its error
  comes back wrapped in a \<open>RuntimeError\<close>.
\<close>

lemma retry_loop_transport:
  "retry_loop E self rm n as msgs le rt w = (res, w') \<Longrightarrow>
   calls w' = calls w @ pre @ (req, Inl e) # post \<Longrightarrow> \<not> is_decode_error e \<Longrightarrow>
     post = [] \<and> res = Inl (RuntimeError (''API request failed: '' @ str_exn e))"
proof (induction as arbitrary: msgs le rt w pre)
  case Nil
  then show ?case by (simp add: ValidationError_new_def)
next
  case (Cons a as)
  obtain out w1 where ab: "attempt_body E self rm n a msgs rt w = (out, w1)"
    by (cases "attempt_body E self rm n a msgs rt w")
  from attempt_body_world [OF ab] obtain reply where
    iv: "invoke E (configs w (default_config self)) msgs w = (reply, w1)" by blast
  let ?rq = "request_for (configs w (default_config self)) msgs"
  have c1: "calls w1 = calls w @ [(?rq, reply)]"
    using invoke_frame [OF iv] by simp
  show ?case
  proof (cases out)
    case (Return v)
    with Cons.prems(1) ab have "w' = w1" by simp
    with c1 Cons.prems(2) have eq: "pre @ (req, Inl e) # post = [(?rq, reply)]" by simp
    then have "pre = []" by (cases pre) auto
    with eq have "reply = Inl e" by simp
    moreover from attempt_body_Return [OF ab [unfolded Return]] iv
    have "decode E rm reply = Inr v" by auto
    ultimately show ?thesis by (simp add: decode_raise)
  next
    case (Raise x)
    with Cons.prems(1) ab have w': "w' = w1" and res: "res = Inl x" by simp_all
    with c1 Cons.prems(2) have eq: "pre @ (req, Inl e) # post = [(?rq, reply)]" by simp
    then have p: "pre = []" by (cases pre) auto
    with eq have r: "reply = Inl e" and po: "post = []" by simp_all
    from attempt_body_Raise [OF ab [unfolded Raise]] iv
    obtain e' where "decode E rm reply = Inl e'"
      and "x = RuntimeError (''API request failed: '' @ str_exn e')"
      by auto
    with r have "x = RuntimeError (''API request failed: '' @ str_exn e)"
      by (simp add: decode_raise)
    with res po show ?thesis by simp
  next
    case (Retry msgs' e' rt')
    with Cons.prems(1) ab have rl: "retry_loop E self rm n as msgs' (Some e') rt' w1 = (res, w')"
      by simp
    from attempt_body_Retry [OF ab [unfolded Retry]] iv
    have d: "decode E rm reply = Inl e'" and ie: "is_decode_error e'" by auto
    from retry_loop_calls [OF rl] obtain new where nw: "calls w' = calls w1 @ new" by blast
    with c1 Cons.prems(2) have eq: "pre @ (req, Inl e) # post = (?rq, reply) # new" by simp
    show ?thesis
    proof (cases "pre = []")
      case True
      with eq have "reply = Inl e" by simp
      with d have "e' = e" by (simp add: decode_raise)
      with ie Cons.prems(3) show ?thesis by simp
    next
      case False
      then obtain c pre' where "pre = c # pre'" by (cases pre) auto
      with eq have "new = pre' @ (req, Inl e) # post" by simp
      with nw have "calls w' = calls w1 @ pre' @ (req, Inl e) # post" by simp
      from Cons.IH [OF rl this Cons.prems(3)] show ?thesis .
    qed
  qed
qed

text \<open>
  When every attempt number was used and every logged attempt ended in a decode error,
  the loop ends in the error after it, built from the error of the last attempt.
\<close>

text \<open>
  When every attempt number was used and every logged attempt ended in a decode error,
  the loop is left for the statement after it, where the call of \<open>ValidationError\<close>
  fails.
\<close>

lemma retry_loop_exhausted:
  "retry_loop E self rm n as msgs le rt w = (res, w') \<Longrightarrow>
   calls w' = calls w @ new \<Longrightarrow> length new = length as \<Longrightarrow>
   \<forall>c\<in>set new. \<exists>e. decode E rm (snd c) = Inl e \<and> is_decode_error e \<Longrightarrow>
     res = Inl (TypeError (no_constructor_text E))"
proof (induction as arbitrary: msgs le rt w new)
  case Nil
  then show ?case by (simp add: ValidationError_new_def)
next
  case (Cons a as)
  obtain out w1 where ab: "attempt_body E self rm n a msgs rt w = (out, w1)"
    by (cases "attempt_body E self rm n a msgs rt w")
  from attempt_body_world [OF ab] obtain reply where
    iv: "invoke E (configs w (default_config self)) msgs w = (reply, w1)" by blast
  let ?rq = "request_for (configs w (default_config self)) msgs"
  have c1: "calls w1 = calls w @ [(?rq, reply)]"
    using invoke_frame [OF iv] by simp
  from Cons.prems(3) obtain c new' where new: "new = c # new'" and ln: "length new' = length as"
    by (cases new) auto
  obtain e where de: "decode E rm (snd c) = Inl e" and ie: "is_decode_error e"
    using Cons.prems(4) new by auto
  show ?case
  proof (cases out)
    case (Return v)
    with Cons.prems(1) ab have "w' = w1" by simp
    with c1 Cons.prems(2) new have "c = (?rq, reply)" by simp
    moreover from attempt_body_Return [OF ab [unfolded Return]] iv
    have "decode E rm reply = Inr v" by auto
    ultimately show ?thesis using de by simp
  next
    case (Raise x)
    with Cons.prems(1) ab have "w' = w1" by simp
    with c1 Cons.prems(2) new have "c = (?rq, reply)" by simp
    moreover from attempt_body_Raise [OF ab [unfolded Raise]] iv
    obtain e' where "decode E rm reply = Inl e'" "\<not> is_decode_error e'" by auto
    ultimately show ?thesis using de ie by simp
  next
    case (Retry msgs' e' rt')
    with Cons.prems(1) ab have rl: "retry_loop E self rm n as msgs' (Some e') rt' w1 = (res, w')"
      by simp
    from attempt_body_Retry [OF ab [unfolded Retry]] iv
    have d: "decode E rm reply = Inl e'" by auto
    from retry_loop_calls [OF rl] obtain more where nw: "calls w' = calls w1 @ more" by blast
    with c1 Cons.prems(2) new have eq: "c # new' = (?rq, reply) # more" by simp
    then have c: "c = (?rq, reply)" and m: "more = new'" by simp_all
    from nw m have cl: "calls w' = calls w1 @ new'" by simp
    from Cons.prems(4) new
    have al: "\<forall>c\<in>set new'. \<exists>e. decode E rm (snd c) = Inl e \<and> is_decode_error e"
      by simp
    from Cons.IH [OF rl cl ln al] show ?thesis .
  qed
qed

section \<open>Properties of the configuration\<close>

text \<open>Construction either returns the object unchanged or raises a \<open>ValueError\<close>.\<close>

lemma post_init_result: "post_init c = Inr c \<or> (\<exists>m. post_init c = Inl (ValueError m))"
  by (auto simp: post_init_def split: option.splits)

text \<open>On finite numbers the check is exactly the documented bounds.\<close>

lemma post_init_finite:
  assumes "temperature c = Fin t" and "top_p c = Fin p"
    and "frequency_penalty c = Fin f" and "presence_penalty c = Fin q"
  shows "(post_init c = Inr c) =
           (0 \<le> t \<and> t \<le> 2 \<and> 0 \<le> p \<and> p \<le> 1 \<and> - 2 \<le> f \<and> f \<le> 2 \<and> - 2 \<le> q \<and> q \<le> 2 \<and>
            (case max_tokens c of None \<Rightarrow> True | Some k \<Rightarrow> 1 \<le> k))"
    and "(\<exists>m. post_init c = Inl (ValueError m)) = (post_init c \<noteq> Inr c)"
  using assms by (auto simp: post_init_def split: option.splits)

text \<open>\<open>generate_structured\<close> writes to no configuration object.\<close>

lemma generate_structured_frame:
  "configs (snd (generate_structured E self p rm n w)) = configs w"
  using retry_loop_frame [of E self rm n "py_range n"
      "initial_messages E (configs w (default_config self)) rm p" None None w
      "fst (generate_structured E self p rm n w)" "snd (generate_structured E self p rm n w)"]
  by (simp add: generate_structured_loop)

section \<open>Properties of the list wrapper\<close>

lemma validate_items_all: "map f xs = map Inr vs \<Longrightarrow> validate_items f xs = Inr vs"
proof (induction xs arbitrary: vs)
  case Nil
  then show ?case by simp
next
  case (Cons x xs)
  then obtain v vs' where vs: "vs = v # vs'" by (cases vs) auto
  with Cons.prems have "f x = Inr v" and "map f xs = map Inr vs'" by simp_all
  with Cons.IH [of vs'] vs show ?case by simp
qed

lemma ListWrapper_validate_items:
  "map_of entries ''items'' = Some (JArr xs) \<Longrightarrow> map (model_validate im) xs = map Inr vs \<Longrightarrow>
     model_validate (ListWrapper_model im) (JObj entries) = Inr \<lparr> items = vs \<rparr>"
  by (simp add: ListWrapper_model_def ListWrapper_validate_def validate_items_all)

section \<open>Examples\<close>

lemma example_create:
  "create (example_collaborators script) r req =
     ((if r < length script then script ! r else Inr ''not json''), Suc r)"
  by (simp add: example_collaborators_def scripted_def)

lemma decode_not_json:
  "decode (example_collaborators script) Task_model (Inr ''not json'') =
     Inl (JSONDecodeError ''Expecting value: line 1 column 1 (char 0)'')"
  by (simp add: decode_def example_collaborators_def example_loads_def extract_json_def
      strip_def startswith_def isspace_def Let_def)

lemma decode_task:
  \<open>decode (example_collaborators script) Task_model (Inr ''{"name":"A","priority":"high"}'') =
     Inr \<lparr> name = ''A'', priority = ''high'' \<rparr>\<close>
  by (simp add: decode_def example_collaborators_def example_loads_def extract_json_def
      strip_def startswith_def isspace_def Let_def Task_model_def Task_validate_def)

section \<open>The claims\<close>

text \<open>
  Claim C1. If every reply of the completion service is text whose extracted payload
  fails JSON parsing or schema validation, then \<open>generate_structured\<close> with
  \<open>max_retries = 3\<close> invokes the service exactly three times (the log gains three
  entries, each the service's own answer to the request, and the service is left in the
  state after the third) and then ends in failure; it does not succeed.
\<close>

theorem retry_budget_three:
  assumes "\<forall>r req. \<exists>t r'. create E r req = (Inr t, r') \<and>
             (\<exists>e. decode E rm (Inr t) = Inl e \<and> is_decode_error e)"
  shows "\<exists>new w'.
           generate_structured E self p rm 3 w = (Inl (TypeError (no_constructor_text E)), w') \<and>
           calls w' = calls w @ new \<and> length new = 3 \<and>
           served E (remote w) new (remote w')"
proof -
  have l3: "length (py_range 3) = 3"
    by (simp add: py_range_def)
  from retry_loop_always_invalid [OF assms, of self 3 "py_range 3"
      "initial_messages E (configs w (default_config self)) rm p" None None w]
  show ?thesis
    unfolding generate_structured_loop using l3 by (auto simp del: retry_loop.simps)
qed

theorem retry_budget_three_witness:
  "(\<forall>r req. \<exists>t r'. create (example_collaborators []) r req = (Inr t, r') \<and>
      (\<exists>e. decode (example_collaborators []) Task_model (Inr t) = Inl e \<and> is_decode_error e)) \<and>
   (\<exists>new w'.
      generate_structured (example_collaborators []) example_client ''hi'' Task_model 3
        (example_world example_config) =
        (Inl (TypeError (no_constructor_text (example_collaborators []))), w') \<and>
      calls w' = calls (example_world example_config) @ new \<and> length new = 3 \<and>
      served (example_collaborators []) (remote (example_world example_config)) new (remote w'))"
proof -
  have h: "\<forall>r req. \<exists>t r'. create (example_collaborators []) r req = (Inr t, r') \<and>
      (\<exists>e. decode (example_collaborators []) Task_model (Inr t) = Inl e \<and> is_decode_error e)"
    by (simp add: example_create decode_not_json)
  from retry_budget_three [OF h] h show ?thesis by blast
qed

text \<open>
  Claim C2. With a budget of at least two attempts (the default is three): if the service
  answers the first request with text that fails to decode and the second with text that
  decodes to \<open>v\<close>, \<open>generate_structured\<close> returns \<open>v\<close> and invokes the service
  exactly twice. The second request carries the model and parameters of the first and its
  messages followed by exactly two more: an assistant message whose content is the first
  reply as received, then a user message that holds the text of the error.
\<close>

theorem second_attempt_succeeds:
  assumes budget: "2 \<le> n"
    and c: "c = configs w (default_config self)"
    and m0: "m0 = initial_messages E c rm p"
    and first: "create E (remote w)
        \<lparr> req_model = model c, req_messages = m0, req_params = to_api_params c \<rparr> = (Inr t1, r1)"
    and bad: "decode E rm (Inr t1) = Inl e" "is_decode_error e"
    and second: "create E r1
        \<lparr> req_model = model c,
          req_messages = m0 @
            [ \<lparr> role = ''assistant'', content = Some t1 \<rparr>,
              \<lparr> role = ''user'',
                content = Some (''Your previous response was invalid. Error: '' @ str_exn e @
                  ''\<newline>Please provide a valid JSON response matching the schema exactly.'') \<rparr> ],
          req_params = to_api_params c \<rparr> = (Inr t2, r2)"
    and good: "decode E rm (Inr t2) = Inr v"
  shows "generate_structured E self p rm n w =
           (Inr v,
            w\<lparr>remote := r2,
              calls := calls w @
                [ (\<lparr> req_model = model c, req_messages = m0, req_params = to_api_params c \<rparr>, Inr t1),
                  (\<lparr> req_model = model c,
                     req_messages = m0 @
                       [ \<lparr> role = ''assistant'', content = Some t1 \<rparr>,
                         \<lparr> role = ''user'',
                           content = Some (''Your previous response was invalid. Error: '' @ str_exn e @
                             ''\<newline>Please provide a valid JSON response matching the schema exactly.'') \<rparr> ],
                     req_params = to_api_params c \<rparr>,
                   Inr t2) ]\<rparr>)"
proof -
  let ?w1 = "w\<lparr>remote := r1, calls := calls w @ [(request_for c m0, Inr t1)]\<rparr>"
  have fb: "m0 @ feedback (Some t1) e = m0 @
            [ \<lparr> role = ''assistant'', content = Some t1 \<rparr>,
              \<lparr> role = ''user'',
                content = Some (''Your previous response was invalid. Error: '' @ str_exn e @
                  ''\<newline>Please provide a valid JSON response matching the schema exactly.'') \<rparr> ]"
    by (simp add: feedback_def)
  have f: "create E (remote w) (request_for (configs w (default_config self)) m0) = (Inr t1, r1)"
    using first c by (simp add: request_for_def)
  have s: "create E (remote ?w1)
        (request_for (configs ?w1 (default_config self)) (m0 @ feedback (Some t1) e)) = (Inr t2, r2)"
    using second c unfolding fb by (simp add: request_for_def)
  have a1: "attempt_body E self rm n 0 m0 None w =
              (Retry (m0 @ feedback (Some t1) e) e (Some t1), ?w1)"
    using attempt_body_invalid [OF f bad, of n 0 None] budget c by simp
  have a2: "attempt_body E self rm n 1 (m0 @ feedback (Some t1) e) (Some t1) ?w1 =
              (Return v, ?w1\<lparr>remote := r2,
                 calls := calls ?w1 @ [(request_for c (m0 @ feedback (Some t1) e), Inr t2)]\<rparr>)"
    using attempt_body_valid [OF s good, of n 1 "Some t1"] c by simp
  have "retry_loop E self rm n (0 # 1 # map int [2..<nat n]) m0 None None w =
          (Inr v, ?w1\<lparr>remote := r2,
             calls := calls ?w1 @ [(request_for c (m0 @ feedback (Some t1) e), Inr t2)]\<rparr>)"
    by (simp add: a1 a2)
  then have "generate_structured E self p rm n w =
          (Inr v, ?w1\<lparr>remote := r2,
             calls := calls ?w1 @ [(request_for c (m0 @ feedback (Some t1) e), Inr t2)]\<rparr>)"
    unfolding generate_structured_loop py_range_two [OF budget] using c m0 by simp
  then show ?thesis
    unfolding fb by (simp add: request_for_def)
qed

theorem second_attempt_succeeds_witness:
  \<open>(2::int) \<le> 3 \<and>
   create (example_collaborators [Inr ''not json'', Inr ''{"name":"A","priority":"high"}''])
     (remote (example_world example_config))
     \<lparr> req_model = model example_config,
       req_messages = initial_messages
         (example_collaborators [Inr ''not json'', Inr ''{"name":"A","priority":"high"}''])
         example_config Task_model ''hi'',
       req_params = to_api_params example_config \<rparr> = (Inr ''not json'', 1) \<and>
   decode (example_collaborators [Inr ''not json'', Inr ''{"name":"A","priority":"high"}'']) Task_model
      (Inr ''not json'') = Inl (JSONDecodeError ''Expecting value: line 1 column 1 (char 0)'') \<and>
   is_decode_error (JSONDecodeError ''Expecting value: line 1 column 1 (char 0)'') \<and>
   decode (example_collaborators [Inr ''not json'', Inr ''{"name":"A","priority":"high"}'']) Task_model
      (Inr ''{"name":"A","priority":"high"}'') = Inr \<lparr> name = ''A'', priority = ''high'' \<rparr> \<and>
   fst (generate_structured
          (example_collaborators [Inr ''not json'', Inr ''{"name":"A","priority":"high"}''])
          example_client ''hi'' Task_model 3 (example_world example_config)) =
     Inr \<lparr> name = ''A'', priority = ''high'' \<rparr> \<and>
   map (req_messages \<circ> fst) (calls (snd (generate_structured
          (example_collaborators [Inr ''not json'', Inr ''{"name":"A","priority":"high"}''])
          example_client ''hi'' Task_model 3 (example_world example_config)))) =
     [ [ \<lparr> role = ''system'',
           content = Some ''You must respond with valid JSON that matches this exact schema:\<newline>{}\<newline>\<newline>Respond ONLY with the JSON object, no additional text or markdown formatting.'' \<rparr>,
         \<lparr> role = ''user'', content = Some ''hi'' \<rparr> ],
       [ \<lparr> role = ''system'',
           content = Some ''You must respond with valid JSON that matches this exact schema:\<newline>{}\<newline>\<newline>Respond ONLY with the JSON object, no additional text or markdown formatting.'' \<rparr>,
         \<lparr> role = ''user'', content = Some ''hi'' \<rparr>,
         \<lparr> role = ''assistant'', content = Some ''not json'' \<rparr>,
         \<lparr> role = ''user'',
           content = Some ''Your previous response was invalid. Error: Expecting value: line 1 column 1 (char 0)\<newline>Please provide a valid JSON response matching the schema exactly.'' \<rparr> ] ]\<close>
proof -
  let ?E = \<open>example_collaborators [Inr ''not json'', Inr ''{"name":"A","priority":"high"}'']\<close>
  let ?w = "example_world example_config"
  let ?m0 = "initial_messages ?E example_config Task_model ''hi''"
  have b: "(2::int) \<le> 3" by simp
  have c: "example_config = configs ?w (default_config example_client)"
    by (simp add: example_world_def)
  have m: "?m0 = initial_messages ?E example_config Task_model ''hi''" by simp
  have r: "remote ?w = 0" and cl: "calls ?w = []" by (simp_all add: example_world_def)
  have f: "create ?E (remote ?w)
      \<lparr> req_model = model example_config, req_messages = ?m0,
        req_params = to_api_params example_config \<rparr> = (Inr ''not json'', 1)"
    by (simp add: example_create r)
  have i: "is_decode_error (JSONDecodeError ''Expecting value: line 1 column 1 (char 0)'')" by simp
  have s: \<open>create ?E 1
      \<lparr> req_model = model example_config,
        req_messages = ?m0 @
          [ \<lparr> role = ''assistant'', content = Some ''not json'' \<rparr>,
            \<lparr> role = ''user'',
              content = Some (''Your previous response was invalid. Error: '' @
                str_exn (JSONDecodeError ''Expecting value: line 1 column 1 (char 0)'') @
                ''\<newline>Please provide a valid JSON response matching the schema exactly.'') \<rparr> ],
        req_params = to_api_params example_config \<rparr> = (Inr ''{"name":"A","priority":"high"}'', 2)\<close>
    by (simp add: example_create)
  have im: "?m0 =
       [ \<lparr> role = ''system'',
           content = Some ''You must respond with valid JSON that matches this exact schema:\<newline>{}\<newline>\<newline>Respond ONLY with the JSON object, no additional text or markdown formatting.'' \<rparr>,
         \<lparr> role = ''user'', content = Some ''hi'' \<rparr> ]"
    by code_simp
  note run = second_attempt_succeeds [OF b c m f decode_not_json i s decode_task]
  show ?thesis
    using f decode_not_json [of \<open>[Inr ''not json'', Inr ''{"name":"A","priority":"high"}'']\<close>]
    unfolding run by (simp add: cl im decode_task)
qed

text \<open>
  Claim C3 says that the error raised when the budget is used up carries the last raw model
  output and the last error detail. The code formats a message from the budget and the
  last error and calls \<open>ValidationError\<close> on it; pydantic refuses the call, so whenever
  the budget is used up (the call made \<open>max_retries\<close> invocations and every one of them
  ended in a JSON or validation error) a \<open>TypeError\<close> leaves the function, the same
  for every run: it carries neither the raw output nor the last error.
\<close>

theorem exhausted_call_raises_type_error:
  assumes "generate_structured E self p rm n w = (res, w')"
    and "calls w' = calls w @ new" and "length new = nat n"
    and "\<forall>c\<in>set new. \<exists>e. decode E rm (snd c) = Inl e \<and> is_decode_error e"
  shows "res = Inl (TypeError (no_constructor_text E))"
  using assms retry_loop_exhausted [of E self rm n "py_range n" _ None None w res w' new]
  by (simp add: generate_structured_loop length_py_range)

theorem exhausted_call_raises_type_error_witness:
  "calls (snd (run_reply ''hello'')) =
     calls (example_world example_config) @ calls (snd (run_reply ''hello'')) \<and>
   map snd (calls (snd (run_reply ''hello''))) = [Inr ''hello''] \<and>
   decode (example_collaborators [Inr ''hello'']) Task_model (Inr ''hello'') =
     Inl (JSONDecodeError ''Expecting value: line 1 column 1 (char 0)'') \<and>
   fst (run_reply ''hello'') = Inl (TypeError ''No constructor defined'')"
proof -
  let ?E = "example_collaborators [Inr ''hello'']"
  have h1: "generate_structured ?E example_client ''hi'' Task_model 1
       (example_world example_config) = (fst (run_reply ''hello''), snd (run_reply ''hello''))"
    by (simp add: run_reply_def)
  have h2: "calls (snd (run_reply ''hello'')) =
      calls (example_world example_config) @ calls (snd (run_reply ''hello''))"
    by (simp add: example_world_def)
  have rs: "map snd (calls (snd (run_reply ''hello''))) = [Inr ''hello'']"
    unfolding run_reply_def by code_simp
  have h3: "length (calls (snd (run_reply ''hello''))) = nat 1"
    using arg_cong [OF rs, of length] by simp
  have d: "decode ?E Task_model (Inr ''hello'') =
      Inl (JSONDecodeError ''Expecting value: line 1 column 1 (char 0)'')"
    by code_simp
  have "\<forall>r\<in>set (map snd (calls (snd (run_reply ''hello'')))).
      \<exists>e. decode ?E Task_model r = Inl e \<and> is_decode_error e"
    unfolding rs by (simp add: d)
  then have h4: "\<forall>c\<in>set (calls (snd (run_reply ''hello''))).
      \<exists>e. decode ?E Task_model (snd c) = Inl e \<and> is_decode_error e"
    by simp
  have t: "no_constructor_text ?E = ''No constructor defined''"
    by (simp add: example_collaborators_def)
  from exhausted_call_raises_type_error [OF h1 h2 h3 h4]
  show ?thesis using h2 rs d t by simp
qed

text \<open>
  Claim C4 says that a failure raised by the completion-service call ends
  \<open>generate_structured\<close> at once with a fatal error and no further invocation. The
  call is made inside the \<open>try\<close> block whose first handler catches
  \<open>JSONDecodeError\<close> and \<open>ValidationError\<close>: when the call itself raises one of
  these, the failure is taken for a malformed reply. Here the first call raises a
  \<open>JSONDecodeError\<close>; the service is invoked a second time, with an assistant message
  of content \<open>None\<close> and the feedback message appended, and the call returns a value.
\<close>

theorem service_decode_error_is_retried:
  \<open>map snd (calls (snd run_service_raises)) =
     [ Inl (JSONDecodeError ''Expecting value: line 1 column 1 (char 0)''),
       Inr ''{"name":"A","priority":"high"}'' ] \<and>
   drop 2 (req_messages (fst (calls (snd run_service_raises) ! 1))) =
     [ \<lparr> role = ''assistant'', content = None \<rparr>,
       \<lparr> role = ''user'',
         content = Some ''Your previous response was invalid. Error: Expecting value: line 1 column 1 (char 0)\<newline>Please provide a valid JSON response matching the schema exactly.'' \<rparr> ] \<and>
   fst run_service_raises = Inr \<lparr> name = ''A'', priority = ''high'' \<rparr>\<close>
  unfolding run_service_raises_def by code_simp

text \<open>
  For the other exceptions of the service call the claim holds: such an invocation is the
  last one of the call, whatever the attempt and the budget, and a \<open>RuntimeError\<close>
  with the text of the failure is raised.
\<close>

lemma other_failure_aborts:
  assumes "generate_structured E self p rm n w = (res, w')"
    and "calls w' = calls w @ pre @ (req, Inl e) # post"
    and "\<not> is_decode_error e"
  shows "post = [] \<and> res = Inl (RuntimeError (''API request failed: '' @ str_exn e))"
  using assms retry_loop_transport [of E self rm n "py_range n" _ None None w res w' pre req e post]
  by (simp add: generate_structured_loop)

text \<open>
  Claim C5, as stated: after dropping the fence lines the joined remainder is returned.
  The code trims the joined remainder once more, so a blank line before the closing fence
  is lost.
\<close>

theorem extract_json_not_as_specified:
  \<open>extract_as_specified ''```json\<newline>{"a":1}\<newline>\<newline>```'' = ''{"a":1}\<newline>'' \<and>
   extract_json ''```json\<newline>{"a":1}\<newline>\<newline>```'' = Inr ''{"a":1}'' \<and>
   extract_json ''```json\<newline>{"a":1}\<newline>\<newline>```'' \<noteq>
     Inr (extract_as_specified ''```json\<newline>{"a":1}\<newline>\<newline>```'')\<close>
  by code_simp

text \<open>
  Claim C5, amended. For every input string \<open>_extract_json\<close> returns a string and
  never raises. It trims the text; if the trimmed text begins with a triple-backtick fence
  it drops the first line and, when the last line is a closing fence, that line too, and
  returns the joined remainder with its surrounding whitespace trimmed; otherwise it returns
  the trimmed text. The fenced example of the specification yields exactly its JSON payload.
\<close>

theorem extract_json_trims_remainder:
  \<open>extract_json text = Inr (strip (extract_as_specified text)) \<and>
   extract_json '' ```json\<newline>{"a":1}\<newline>``` '' = Inr ''{"a":1}''\<close>
proof
  show "extract_json text = Inr (strip (extract_as_specified text))"
    by (simp add: extract_json_def extract_as_specified_def closing_fence_total Let_def strip_strip)
  show \<open>extract_json '' ```json\<newline>{"a":1}\<newline>``` '' = Inr ''{"a":1}''\<close>
    by code_simp
qed

text \<open>
  Claim C6. For every item class, \<open>generate_structured_list\<close> wraps it in a class
  whose schema is an object with the single, required property \<open>items\<close>, an array of
  the item schema, and whose validator turns an object with an array under \<open>items\<close>
  into the list of all its validated elements. It runs \<open>generate_structured\<close> once on
  that class with the same budget, passes an error on as it is and otherwise returns the
  \<open>items\<close> of the result: when the first reply holds a JSON object whose \<open>items\<close>
  validate to \<open>vs\<close>, it returns \<open>vs\<close> after one invocation. In particular, with the
  item class \<open>Task\<close> and the reply below (which \<open>json.loads\<close> parses to the object
  shown), it returns the list of the one task named \<open>A\<close> with priority \<open>high\<close>.
  The budget must allow one attempt; the default is three.
\<close>

theorem generate_structured_list_unwraps:
  \<open>model_json_schema (ListWrapper_model item_model) =
     JObj [ (''$defs'', JObj (item_definitions item_model)),
            (''properties'',
               JObj [(''items'',
                        JObj [ (''items'', JObj [(''$ref'', JStr (''#/$defs/'' @ model_name item_model))]),
                               (''title'', JStr ''Items''),
                               (''type'', JStr ''array'') ])]),
            (''required'', JArr [JStr ''items'']),
            (''title'', JStr ''ListWrapper''),
            (''type'', JStr ''object'') ] \<and>
   model_json_schema (ListWrapper_model Task_model) =
     JObj [ (''$defs'',
               JObj [(''Task'',
                        JObj [ (''properties'',
                                  JObj [ (''name'', JObj [(''title'', JStr ''Name''), (''type'', JStr ''string'')]),
                                         (''priority'', JObj [(''title'', JStr ''Priority''), (''type'', JStr ''string'')]) ]),
                               (''required'', JArr [JStr ''name'', JStr ''priority'']),
                               (''title'', JStr ''Task''),
                               (''type'', JStr ''object'') ])]),
            (''properties'',
               JObj [(''items'',
                        JObj [ (''items'', JObj [(''$ref'', JStr ''#/$defs/Task'')]),
                               (''title'', JStr ''Items''),
                               (''type'', JStr ''array'') ])]),
            (''required'', JArr [JStr ''items'']),
            (''title'', JStr ''ListWrapper''),
            (''type'', JStr ''object'') ] \<and>
   (map_of entries ''items'' = Some (JArr xs) \<and> map (model_validate item_model) xs = map Inr vs
    \<longrightarrow> model_validate (ListWrapper_model item_model) (JObj entries) = Inr \<lparr> items = vs \<rparr>) \<and>
   generate_structured_list E self p item_model n w =
     (case generate_structured E self p (ListWrapper_model item_model) n w of
        (Inl e, w') \<Rightarrow> (Inl e, w')
      | (Inr result, w') \<Rightarrow> (Inr (items result), w')) \<and>
   (1 \<le> n \<and>
    create E (remote w)
      \<lparr> req_model = model (configs w (default_config self)),
        req_messages = initial_messages E (configs w (default_config self))
                         (ListWrapper_model item_model) p,
        req_params = to_api_params (configs w (default_config self)) \<rparr> = (Inr t, r') \<and>
    extract_json t = Inr json_text \<and> json_loads E json_text = Inr (JObj entries) \<and>
    map_of entries ''items'' = Some (JArr xs) \<and> map (model_validate item_model) xs = map Inr vs
    \<longrightarrow> generate_structured_list E self p item_model n w =
          (Inr vs,
           w\<lparr>remote := r',
             calls := calls w @
               [(\<lparr> req_model = model (configs w (default_config self)),
                   req_messages = initial_messages E (configs w (default_config self))
                                    (ListWrapper_model item_model) p,
                   req_params = to_api_params (configs w (default_config self)) \<rparr>, Inr t)]\<rparr>)) \<and>
   (1 \<le> n \<and>
    create E (remote w)
      \<lparr> req_model = model (configs w (default_config self)),
        req_messages = initial_messages E (configs w (default_config self))
                         (ListWrapper_model Task_model) p,
        req_params = to_api_params (configs w (default_config self)) \<rparr> =
      (Inr ''{"items":[{"name":"A","priority":"high"}]}'', r') \<and>
    json_loads E ''{"items":[{"name":"A","priority":"high"}]}'' =
      Inr (JObj [(''items'', JArr [JObj [(''name'', JStr ''A''), (''priority'', JStr ''high'')]])])
    \<longrightarrow> fst (generate_structured_list E self p Task_model n w) =
          Inr [\<lparr> name = ''A'', priority = ''high'' \<rparr>] \<and>
        length (calls (snd (generate_structured_list E self p Task_model n w))) =
          length (calls w) + 1)\<close>
proof -
  have run: "generate_structured_list E self p im k w =
          (Inr ys,
           w\<lparr>remote := r',
             calls := calls w @
               [(\<lparr> req_model = model (configs w (default_config self)),
                   req_messages = initial_messages E (configs w (default_config self))
                                    (ListWrapper_model im) p,
                   req_params = to_api_params (configs w (default_config self)) \<rparr>, Inr u)]\<rparr>)"
    if k: "1 \<le> k"
      and cr: "create E (remote w)
        \<lparr> req_model = model (configs w (default_config self)),
          req_messages = initial_messages E (configs w (default_config self)) (ListWrapper_model im) p,
          req_params = to_api_params (configs w (default_config self)) \<rparr> = (Inr u, r')"
      and ex: "extract_json u = Inr jt" and lo: "json_loads E jt = Inr (JObj es)"
      and it: "map_of es ''items'' = Some (JArr js)"
      and va: "map (model_validate im) js = map Inr ys"
    for im :: "'c BaseModel" and k u jt es js ys
  proof -
    let ?c = "configs w (default_config self)"
    let ?m0 = "initial_messages E ?c (ListWrapper_model im) p"
    have d: "decode E (ListWrapper_model im) (Inr u) = Inr \<lparr> items = ys \<rparr>"
      using ex lo ListWrapper_validate_items [OF it va] by (simp add: decode_def)
    have cr': "create E (remote w) (request_for ?c ?m0) = (Inr u, r')"
      using cr by (simp add: request_for_def)
    have "generate_structured E self p (ListWrapper_model im) k w =
            (Inr \<lparr> items = ys \<rparr>,
             w\<lparr>remote := r', calls := calls w @ [(request_for ?c ?m0, Inr u)]\<rparr>)"
      unfolding generate_structured_loop py_range_one [OF k]
      by (simp add: attempt_body_valid [OF cr' d])
    then show ?thesis
      by (simp add: generate_structured_list_def request_for_def)
  qed
  have schema: "model_json_schema (ListWrapper_model item_model) =
     JObj [ (''$defs'', JObj (item_definitions item_model)),
            (''properties'',
               JObj [(''items'',
                        JObj [ (''items'', JObj [(''$ref'', JStr (''#/$defs/'' @ model_name item_model))]),
                               (''title'', JStr ''Items''),
                               (''type'', JStr ''array'') ])]),
            (''required'', JArr [JStr ''items'']),
            (''title'', JStr ''ListWrapper''),
            (''type'', JStr ''object'') ]"
    by (simp add: ListWrapper_model_def)
  have task_schema: "model_json_schema (ListWrapper_model Task_model) =
     JObj [ (''$defs'',
               JObj [(''Task'',
                        JObj [ (''properties'',
                                  JObj [ (''name'', JObj [(''title'', JStr ''Name''), (''type'', JStr ''string'')]),
                                         (''priority'', JObj [(''title'', JStr ''Priority''), (''type'', JStr ''string'')]) ]),
                               (''required'', JArr [JStr ''name'', JStr ''priority'']),
                               (''title'', JStr ''Task''),
                               (''type'', JStr ''object'') ])]),
            (''properties'',
               JObj [(''items'',
                        JObj [ (''items'', JObj [(''$ref'', JStr ''#/$defs/Task'')]),
                               (''title'', JStr ''Items''),
                               (''type'', JStr ''array'') ])]),
            (''required'', JArr [JStr ''items'']),
            (''title'', JStr ''ListWrapper''),
            (''type'', JStr ''object'') ]"
    by code_simp
  have valid: "map_of entries ''items'' = Some (JArr xs) \<and>
      map (model_validate item_model) xs = map Inr vs
      \<longrightarrow> model_validate (ListWrapper_model item_model) (JObj entries) = Inr \<lparr> items = vs \<rparr>"
    using ListWrapper_validate_items by blast
  have deleg: "generate_structured_list E self p item_model n w =
     (case generate_structured E self p (ListWrapper_model item_model) n w of
        (Inl e, w') \<Rightarrow> (Inl e, w')
      | (Inr result, w') \<Rightarrow> (Inr (items result), w'))"
    by (simp add: generate_structured_list_def)
  let ?t = \<open>''{"items":[{"name":"A","priority":"high"}]}''\<close>
  have ex: "extract_json ?t = Inr ?t" by code_simp
  have tv: "map (model_validate Task_model) [JObj [(''name'', JStr ''A''), (''priority'', JStr ''high'')]] =
      map Inr [\<lparr> name = ''A'', priority = ''high'' \<rparr>]"
    by (simp add: Task_model_def Task_validate_def)
  have it: "map_of [(''items'', JArr [JObj [(''name'', JStr ''A''), (''priority'', JStr ''high'')]])] ''items'' =
      Some (JArr [JObj [(''name'', JStr ''A''), (''priority'', JStr ''high'')]])"
    by simp
  show ?thesis
  proof (intro conjI impI)
    show "model_json_schema (ListWrapper_model item_model) =
     JObj [ (''$defs'', JObj (item_definitions item_model)),
            (''properties'',
               JObj [(''items'',
                        JObj [ (''items'', JObj [(''$ref'', JStr (''#/$defs/'' @ model_name item_model))]),
                               (''title'', JStr ''Items''),
                               (''type'', JStr ''array'') ])]),
            (''required'', JArr [JStr ''items'']),
            (''title'', JStr ''ListWrapper''),
            (''type'', JStr ''object'') ]"
      by (rule schema)
  next
    show "model_json_schema (ListWrapper_model Task_model) =
     JObj [ (''$defs'',
               JObj [(''Task'',
                        JObj [ (''properties'',
                                  JObj [ (''name'', JObj [(''title'', JStr ''Name''), (''type'', JStr ''string'')]),
                                         (''priority'', JObj [(''title'', JStr ''Priority''), (''type'', JStr ''string'')]) ]),
                               (''required'', JArr [JStr ''name'', JStr ''priority'']),
                               (''title'', JStr ''Task''),
                               (''type'', JStr ''object'') ])]),
            (''properties'',
               JObj [(''items'',
                        JObj [ (''items'', JObj [(''$ref'', JStr ''#/$defs/Task'')]),
                               (''title'', JStr ''Items''),
                               (''type'', JStr ''array'') ])]),
            (''required'', JArr [JStr ''items'']),
            (''title'', JStr ''ListWrapper''),
            (''type'', JStr ''object'') ]"
      by (rule task_schema)
  next
    assume "map_of entries ''items'' = Some (JArr xs) \<and>
      map (model_validate item_model) xs = map Inr vs"
    with valid show "model_validate (ListWrapper_model item_model) (JObj entries) = Inr \<lparr> items = vs \<rparr>"
      by blast
  next
    show "generate_structured_list E self p item_model n w =
     (case generate_structured E self p (ListWrapper_model item_model) n w of
        (Inl e, w') \<Rightarrow> (Inl e, w')
      | (Inr result, w') \<Rightarrow> (Inr (items result), w'))"
      by (rule deleg)
  next
    assume h: "1 \<le> n \<and>
      create E (remote w)
        \<lparr> req_model = model (configs w (default_config self)),
          req_messages = initial_messages E (configs w (default_config self))
                           (ListWrapper_model item_model) p,
          req_params = to_api_params (configs w (default_config self)) \<rparr> = (Inr t, r') \<and>
      extract_json t = Inr json_text \<and> json_loads E json_text = Inr (JObj entries) \<and>
      map_of entries ''items'' = Some (JArr xs) \<and> map (model_validate item_model) xs = map Inr vs"
    then show "generate_structured_list E self p item_model n w =
          (Inr vs,
           w\<lparr>remote := r',
             calls := calls w @
               [(\<lparr> req_model = model (configs w (default_config self)),
                   req_messages = initial_messages E (configs w (default_config self))
                                    (ListWrapper_model item_model) p,
                   req_params = to_api_params (configs w (default_config self)) \<rparr>, Inr t)]\<rparr>)"
      using run [of n item_model t json_text entries xs vs] by blast
  next
    assume h: \<open>1 \<le> n \<and>
      create E (remote w)
        \<lparr> req_model = model (configs w (default_config self)),
          req_messages = initial_messages E (configs w (default_config self))
                           (ListWrapper_model Task_model) p,
          req_params = to_api_params (configs w (default_config self)) \<rparr> = (Inr ?t, r') \<and>
      json_loads E ?t =
        Inr (JObj [(''items'', JArr [JObj [(''name'', JStr ''A''), (''priority'', JStr ''high'')]])])\<close>
    from run [of n Task_model ?t ?t _ _ _, OF _ _ ex _ it tv] h
    have g: "generate_structured_list E self p Task_model n w =
          (Inr [\<lparr> name = ''A'', priority = ''high'' \<rparr>],
           w\<lparr>remote := r',
             calls := calls w @
               [(\<lparr> req_model = model (configs w (default_config self)),
                   req_messages = initial_messages E (configs w (default_config self))
                                    (ListWrapper_model Task_model) p,
                   req_params = to_api_params (configs w (default_config self)) \<rparr>, Inr ?t)]\<rparr>)"
      by blast
    show "fst (generate_structured_list E self p Task_model n w) =
          Inr [\<lparr> name = ''A'', priority = ''high'' \<rparr>]"
      by (simp add: g)
    show "length (calls (snd (generate_structured_list E self p Task_model n w))) =
          length (calls w) + 1"
      by (simp add: g)
  qed
qed

theorem generate_structured_list_unwraps_witness:
  \<open>(1::int) \<le> 3 \<and>
   create (example_collaborators [Inr ''{"items":[{"name":"A","priority":"high"}]}''])
     (remote (example_world example_config))
     \<lparr> req_model = model (configs (example_world example_config) (default_config example_client)),
       req_messages = initial_messages
         (example_collaborators [Inr ''{"items":[{"name":"A","priority":"high"}]}''])
         (configs (example_world example_config) (default_config example_client))
         (ListWrapper_model Task_model) ''Create 3 project tasks'',
       req_params = to_api_params (configs (example_world example_config) (default_config example_client)) \<rparr> =
     (Inr ''{"items":[{"name":"A","priority":"high"}]}'', 1) \<and>
   extract_json ''{"items":[{"name":"A","priority":"high"}]}'' =
     Inr ''{"items":[{"name":"A","priority":"high"}]}'' \<and>
   json_loads (example_collaborators [Inr ''{"items":[{"name":"A","priority":"high"}]}''])
      ''{"items":[{"name":"A","priority":"high"}]}'' =
      Inr (JObj [(''items'', JArr [JObj [(''name'', JStr ''A''), (''priority'', JStr ''high'')]])]) \<and>
   map_of [(''items'', JArr [JObj [(''name'', JStr ''A''), (''priority'', JStr ''high'')]])] ''items'' =
      Some (JArr [JObj [(''name'', JStr ''A''), (''priority'', JStr ''high'')]]) \<and>
   map (model_validate Task_model) [JObj [(''name'', JStr ''A''), (''priority'', JStr ''high'')]] =
      map Inr [\<lparr> name = ''A'', priority = ''high'' \<rparr>] \<and>
   model_validate (ListWrapper_model Task_model)
      (JObj [(''items'', JArr [JObj [(''name'', JStr ''A''), (''priority'', JStr ''high'')]])]) =
      Inr \<lparr> items = [\<lparr> name = ''A'', priority = ''high'' \<rparr>] \<rparr> \<and>
   fst (generate_structured_list
          (example_collaborators [Inr ''{"items":[{"name":"A","priority":"high"}]}''])
          example_client ''Create 3 project tasks'' Task_model 3 (example_world example_config)) =
     Inr [\<lparr> name = ''A'', priority = ''high'' \<rparr>] \<and>
   length (calls (snd (generate_structured_list
          (example_collaborators [Inr ''{"items":[{"name":"A","priority":"high"}]}''])
          example_client ''Create 3 project tasks'' Task_model 3 (example_world example_config)))) = 1\<close>
proof -
  let ?t = \<open>''{"items":[{"name":"A","priority":"high"}]}''\<close>
  let ?E = "example_collaborators [Inr ?t]"
  let ?w = "example_world example_config"
  let ?c = "configs ?w (default_config example_client)"
  let ?obj = "JObj [(''name'', JStr ''A''), (''priority'', JStr ''high'')]"
  let ?task = "\<lparr> name = ''A'', priority = ''high'' \<rparr>"
  have a: "(1::int) \<le> 3" by simp
  have b: "create ?E (remote ?w)
     \<lparr> req_model = model ?c,
       req_messages = initial_messages ?E ?c (ListWrapper_model Task_model) ''Create 3 project tasks'',
       req_params = to_api_params ?c \<rparr> = (Inr ?t, 1)"
    by (simp add: example_create example_world_def)
  have x: "extract_json ?t = Inr ?t" by code_simp
  have l: "json_loads ?E ?t = Inr (JObj [(''items'', JArr [?obj])])"
    by (simp add: example_collaborators_def example_loads_def)
  have i: "map_of [(''items'', JArr [?obj])] ''items'' = Some (JArr [?obj])" by simp
  have v: "map (model_validate Task_model) [?obj] = map Inr [?task]"
    by (simp add: Task_model_def Task_validate_def)
  have d: "length (calls ?w) + 1 = 1" by (simp add: example_world_def)
  note T = generate_structured_list_unwraps [where item_model = Task_model and E = ?E
      and self = example_client and p = "''Create 3 project tasks''" and n = 3 and w = ?w
      and t = ?t and r' = 1 and json_text = ?t and entries = "[(''items'', JArr [?obj])]"
      and xs = "[?obj]" and vs = "[?task]"]
  from T i v have w1: "model_validate (ListWrapper_model Task_model) (JObj [(''items'', JArr [?obj])]) =
      Inr \<lparr> items = [?task] \<rparr>"
    by blast
  from T a b l
  have w2: "fst (generate_structured_list ?E example_client ''Create 3 project tasks'' Task_model 3 ?w) =
          Inr [?task] \<and>
        length (calls (snd (generate_structured_list ?E example_client ''Create 3 project tasks''
          Task_model 3 ?w))) = length (calls ?w) + 1"
    by blast
  from a b x l i v w1 w2 d show ?thesis by presburger
qed

text \<open>
  Claim C7. On text that after trimming does not begin with a triple-backtick fence,
  extraction is idempotent: extracting from the extracted text gives the same text.
\<close>

theorem extract_json_idempotent_on_clean:
  "\<not> startswith (strip s) ''```'' \<Longrightarrow> \<exists>r. extract_json s = Inr r \<and> extract_json r = Inr r"
  by (simp add: extract_json_def Let_def strip_strip)

theorem extract_json_idempotent_on_clean_witness:
  \<open>\<not> startswith (strip '' {"a":1} '') ''```'' \<and>
   (\<exists>r. extract_json '' {"a":1} '' = Inr r \<and> extract_json r = Inr r)\<close>
proof -
  have h: \<open>\<not> startswith (strip '' {"a":1} '') ''```''\<close> by code_simp
  from extract_json_idempotent_on_clean [OF h] h show ?thesis by simp
qed

text \<open>
  Claim C8 says that construction fails whenever a parameter lies outside its bounds.
  A temperature of NaN lies outside \<open>[0, 2]\<close>, yet both comparisons of the check are
  false for it and the object is constructed.
\<close>

theorem post_init_accepts_nan:
  "post_init (ModelConfig_defaults\<lparr>temperature := NaN\<rparr>) =
     Inr (ModelConfig_defaults\<lparr>temperature := NaN\<rparr>)"
  by (simp add: post_init_def ModelConfig_defaults_def)

text \<open>
  Claim C9, as stated: no operation, client construction included, modifies a field of a
  \<open>ModelConfig\<close> supplied by the caller. Constructing a client on a configuration whose
  model is the alias \<open>deepseek\<close> replaces the alias by the full model name in the
  caller's object.
\<close>

theorem init_rewrites_caller_model:
  "model (configs (example_world (ModelConfig_defaults\<lparr>model := Some ''deepseek''\<rparr>)) 0) =
     Some ''deepseek'' \<and>
   model (configs (snd (OpenRouterClient_init (Some ''key'') 0 (Some 0)
       (example_world (ModelConfig_defaults\<lparr>model := Some ''deepseek''\<rparr>)))) 0) =
     Some ''deepseek/deepseek-chat-v3.1:free''"
  by code_simp

text \<open>
  Claim C9, amended. \<open>generate_text\<close>, \<open>generate_structured\<close> and
  \<open>generate_structured_list\<close> modify no field of any \<open>ModelConfig\<close>. Client
  construction modifies at most the field \<open>model\<close> of the configuration supplied by the
  caller, and no other object.
\<close>

theorem config_frame:
  "configs (snd (generate_text E self p w)) = configs w \<and>
   configs (snd (generate_structured E self p rm n w)) = configs w \<and>
   configs (snd (generate_structured_list E self p im n w)) = configs w \<and>
   configs (snd (OpenRouterClient_init env_key pick (Some c) w)) =
     (configs w)(c := (configs w c)
        \<lparr>model := model (configs (snd (OpenRouterClient_init env_key pick (Some c) w)) c)\<rparr>)"
proof (intro conjI)
  show "configs (snd (generate_text E self p w)) = configs w"
    by (simp add: generate_text_def invoke_eq Let_def split: sum.splits)
  show "configs (snd (generate_structured E self p rm n w)) = configs w"
    by (rule generate_structured_frame)
  show "configs (snd (generate_structured_list E self p im n w)) = configs w"
    using generate_structured_frame [of E self p "ListWrapper_model im" n w]
    by (cases "generate_structured E self p (ListWrapper_model im) n w")
      (auto simp: generate_structured_list_def split: sum.splits)
  show "configs (snd (OpenRouterClient_init env_key pick (Some c) w)) =
     (configs w)(c := (configs w c)
        \<lparr>model := model (configs (snd (OpenRouterClient_init env_key pick (Some c) w)) c)\<rparr>)"
    by (simp add: OpenRouterClient_init_def set_model_def Let_def split: option.splits)
qed

text \<open>
  Claim C10 says that with \<open>max_retries\<close> zero or negative the service is not invoked
  and the call raises the error of an exhausted budget, with no last error recorded. The
  loop body indeed never runs and the service is not invoked (the state, with its log, is
  unchanged), but the call of \<open>ValidationError\<close> on the formatted message fails, as in
  C3: a \<open>TypeError\<close> leaves the function, and no error that reports the last error as
  \<open>None\<close> comes into being.
\<close>

theorem no_attempt_without_budget:
  "max_retries \<le> 0 \<Longrightarrow>
     generate_structured E self p rm max_retries w = (Inl (TypeError (no_constructor_text E)), w)"
  by (simp add: generate_structured_loop py_range_nonpos ValidationError_new_def)

theorem no_attempt_without_budget_witness:
  "(0::int) \<le> 0 \<and>
   generate_structured (example_collaborators []) example_client ''hi'' Task_model 0
     (example_world example_config) =
     (Inl (TypeError ''No constructor defined''), example_world example_config)"
  using no_attempt_without_budget [of 0 "example_collaborators []" example_client "''hi''" Task_model
      "example_world example_config"]
  by (simp add: example_collaborators_def)

end
